theory Spec2Isabelle
  imports Complex_Main "HOL-Library.Word"
begin

section \<open>Strings and values of the script\<close>

text \<open>
  A JavaScript string is a sequence of UTF-16 code units. The literals of \<^verbatim>\<open>script.js\<close>
  are ASCII but for three glyphs of the card template, which are written below by their
  code units.
\<close>

type_synonym code_unit = "16 word"
type_synonym js_string = "code_unit list"

definition cu :: "char \<Rightarrow> code_unit" where
  "cu c = of_char c"

definition ascii :: "string \<Rightarrow> js_string" where
  "ascii s = map cu s"

datatype js_error = Error (message: js_string) | TypeError (message: js_string)

text \<open>
  The values an argument of \<^verbatim>\<open>addRice\<close> can hold. A missing argument is
  \<open>JUndefined\<close>. \<open>JNum\<close> is an integer number in the range where every integer is a
  double, from \<open>- 2 ^ 53\<close> to \<open>2 ^ 53 - 1\<close>, read as a signed word; ToString writes it in
  plain decimal digits. \<open>JObj\<close> is an object that is not an array, given by what its
  conversion to a string yields: a text, or the error it raises. \<open>JArr\<close> is an array,
  where \<open>None\<close> is a hole: an index below the length that holds no element.
  Numbers that are not integers, and conversions that write to the page, are outside
  this model. The texts of the TypeErrors are those of V8.
\<close>

datatype js_value =
  JUndefined | JNull | JBool bool | JNum "54 word" | JStr js_string | JSymbol
| JObj "js_error + js_string" | JArr "js_value option list"


definition bare_object :: js_value where
  "bare_object = JObj (Inl (TypeError (ascii ''Cannot convert object to primitive value'')))"

fun digits :: "nat \<Rightarrow> js_string" where
  "digits n =
     (if n < 10 then [cu CHR ''0'' + of_nat n]
      else digits (n div 10) @ [cu CHR ''0'' + of_nat (n mod 10)])"

declare digits.simps [simp del]

definition number_to_string :: "54 word \<Rightarrow> js_string" where
  "number_to_string n =
     (if sint n < 0 then cu CHR ''-'' # digits (nat (- sint n)) else digits (nat (sint n)))"

text \<open>
  \<^verbatim>\<open>${v}\<close> in a template literal converts \<open>v\<close> with ToString, which raises a TypeError
  on a symbol and on an object with no conversion. An array is converted by
  \<^verbatim>\<open>Array.prototype.join\<close> with a comma: every index below the length gives a text,
  the empty one for a hole and for \<^verbatim>\<open>undefined\<close> and \<^verbatim>\<open>null\<close>, and the first
  conversion that raises ends the call.
\<close>

fun to_string :: "js_value \<Rightarrow> js_error + js_string"
  and element_string :: "js_value option \<Rightarrow> js_error + js_string"
  and join_elements :: "js_value option list \<Rightarrow> js_error + js_string" where
  "to_string JUndefined = Inr (ascii ''undefined'')"
| "to_string JNull = Inr (ascii ''null'')"
| "to_string (JBool b) = Inr (if b then ascii ''true'' else ascii ''false'')"
| "to_string (JNum n) = Inr (number_to_string n)"
| "to_string (JStr s) = Inr s"
| "to_string JSymbol = Inl (TypeError (ascii ''Cannot convert a Symbol value to a string''))"
| "to_string (JObj conversion) = conversion"
| "to_string (JArr xs) = join_elements xs"
| "element_string None = Inr []"
| "element_string (Some v) = (if v = JUndefined \<or> v = JNull then Inr [] else to_string v)"
| "join_elements [] = Inr []"
| "join_elements [x] = element_string x"
| "join_elements (x # y # ys) =
     (case element_string x of
        Inl e \<Rightarrow> Inl e
      | Inr a \<Rightarrow>
          (case join_elements (y # ys) of
             Inl e \<Rightarrow> Inl e
           | Inr b \<Rightarrow> Inr (a @ ascii '','' @ b)))"

text \<open>Sequencing of steps that can raise: the first error ends the computation.\<close>

definition and_then :: "js_error + 'a \<Rightarrow> ('a \<Rightarrow> js_error + 'b) \<Rightarrow> js_error + 'b" where
  "and_then r f = (case r of Inl e \<Rightarrow> Inl e | Inr a \<Rightarrow> f a)"

fun isArray :: "js_value \<Rightarrow> bool" where
  "isArray (JArr xs) = True"
| "isArray v = False"

text \<open>
  \<^verbatim>\<open>v.forEach(f)\<close> with the callback written as a state transformer that can raise.
  The callback is called for the elements an array holds, in order, and not for its
  holes; an error of the callback ends the loop. Only an array has the method: on any
  other value of the model the call raises a TypeError.
\<close>

fun forEach_elements ::
  "js_value option list \<Rightarrow> (js_value \<Rightarrow> 's \<Rightarrow> js_error + 's) \<Rightarrow> 's \<Rightarrow> js_error + 's" where
  "forEach_elements [] f s = Inr s"
| "forEach_elements (None # xs) f s = forEach_elements xs f s"
| "forEach_elements (Some x # xs) f s =
     (case f x s of Inl e \<Rightarrow> Inl e | Inr s' \<Rightarrow> forEach_elements xs f s')"

fun forEach :: "js_value \<Rightarrow> (js_value \<Rightarrow> 's \<Rightarrow> js_error + 's) \<Rightarrow> 's \<Rightarrow> js_error + 's" where
  "forEach (JArr xs) f s = forEach_elements xs f s"
| "forEach v f s = Inl (TypeError (ascii ''mediaUrl.forEach is not a function''))"

text \<open>\<^verbatim>\<open>String.prototype.trim\<close> strips WhiteSpace and LineTerminator code points.\<close>

definition is_white_space :: "code_unit \<Rightarrow> bool" where
  "is_white_space c \<longleftrightarrow>
     c \<in> set [0x9, 0xA, 0xB, 0xC, 0xD, 0x20, 0xA0, 0x1680, 0x2028, 0x2029, 0x202F, 0x205F,
              0x3000, 0xFEFF]
     \<or> (0x2000 \<le> c \<and> c \<le> 0x200A)"

definition trim :: "js_string \<Rightarrow> js_string" where
  "trim s = rev (dropWhile is_white_space (rev (dropWhile is_white_space s)))"

fun includes_js :: "js_string \<Rightarrow> js_string \<Rightarrow> bool" where
  "includes_js [] pat = (pat = [])"
| "includes_js (c # cs) pat = (take (length pat) (c # cs) = pat \<or> includes_js cs pat)"

section \<open>The page\<close>

text \<open>
  The page holds the three elements the script looks up by id: the container
  \<^verbatim>\<open>riceGrid\<close> (its children, oldest first), the input \<^verbatim>\<open>redditUrl\<close> and the button
  \<^verbatim>\<open>submitBtn\<close>. \<open>trace\<close> records, in order, what the submission flow does to them
  and to the outside: the writes to the button and to the input, the calls of
  \<^verbatim>\<open>alert\<close> and the calls of \<^verbatim>\<open>createGitHubIssue\<close>.
\<close>

record card =
  className :: js_string
  innerHTML :: js_string

datatype effect =
  Alert js_string
| SetDisabled bool
| SetTextContent js_string
| SetValue js_string
| CreateIssue js_string

record page =
  riceGrid_children :: "card list"
  redditUrl_value :: js_string
  submitBtn_disabled :: bool
  submitBtn_textContent :: js_string
  trace :: "effect list"

definition alert :: "js_string \<Rightarrow> page \<Rightarrow> page" where
  "alert msg p = p\<lparr>trace := trace p @ [Alert msg]\<rparr>"

definition set_disabled :: "bool \<Rightarrow> page \<Rightarrow> page" where
  "set_disabled b p = p\<lparr>submitBtn_disabled := b, trace := trace p @ [SetDisabled b]\<rparr>"

definition set_textContent :: "js_string \<Rightarrow> page \<Rightarrow> page" where
  "set_textContent s p = p\<lparr>submitBtn_textContent := s, trace := trace p @ [SetTextContent s]\<rparr>"

definition set_value :: "js_string \<Rightarrow> page \<Rightarrow> page" where
  "set_value s p = p\<lparr>redditUrl_value := s, trace := trace p @ [SetValue s]\<rparr>"

definition issue_requested :: "js_string \<Rightarrow> page \<Rightarrow> page" where
  "issue_requested url p = p\<lparr>trace := trace p @ [CreateIssue url]\<rparr>"

definition appendChild :: "card \<Rightarrow> page \<Rightarrow> page" where
  "appendChild c p = p\<lparr>riceGrid_children := riceGrid_children p @ [c]\<rparr>"

section \<open>addRice\<close>

text \<open>
  The three templates of the media, and the template of the card, as functions of the
  texts interpolated into them.
\<close>

definition video_html :: "js_string \<Rightarrow> js_string" where
  \<open>video_html src =
     ascii ''<video class="rice-video" controls><source src="'' @ src
     @ ascii ''" type="video/mp4">Your browser does not support the video tag.</video>''\<close>

definition gallery_image_html :: "js_string \<Rightarrow> js_string" where
  \<open>gallery_image_html src =
     ascii ''<img src="'' @ src @ ascii ''" alt="Screenshot" class="rice-image">''\<close>

definition single_image_html :: "js_string \<Rightarrow> js_string" where
  \<open>single_image_html src =
     ascii ''<img src="'' @ src @ ascii ''" alt="Desktop Screenshot" class="rice-image">''\<close>

definition card_html ::
  "js_string \<Rightarrow> js_string \<Rightarrow> js_string \<Rightarrow> js_string \<Rightarrow> js_string \<Rightarrow> js_string \<Rightarrow> js_string" where
  \<open>card_html username title mediaHTML sourceUrl upvotes comments =
     ascii ''\<newline>        <div class="rice-header">\<newline>            <div class="username">u/''
     @ username
     @ ascii ''</div>\<newline>            <div class="rice-title">''
     @ title
     @ ascii ''</div>\<newline>        </div>\<newline>        <div class="media-container">\<newline>            ''
     @ mediaHTML
     @ ascii ''\<newline>        </div>\<newline>        <a href="''
     @ sourceUrl
     @ ascii ''" class="post-link" target="_blank">View on Reddit '' @ [0x2192]
     @ ascii ''</a>\<newline>        <div class="stats">\<newline>            <span>'' @ [0x2191]
     @ ascii '' ''
     @ upvotes
     @ ascii ''</span>\<newline>            <span>'' @ [0xD83D, 0xDCAC] @ ascii '' ''
     @ comments
     @ ascii ''</span>\<newline>        </div>\<newline>    ''\<close>

text \<open>
  The template literals of \<^verbatim>\<open>addRice\<close>: each converts the values it interpolates, in
  the order in which they stand, and raises what a conversion raises.
\<close>

definition video_markup :: "js_value \<Rightarrow> js_error + js_string" where
  "video_markup mediaUrl = and_then (to_string mediaUrl) (\<lambda>src. Inr (video_html src))"

definition gallery_image :: "js_value \<Rightarrow> js_string \<Rightarrow> js_error + js_string" where
  "gallery_image url mediaHTML =
     and_then (to_string url) (\<lambda>src. Inr (mediaHTML @ gallery_image_html src))"

definition single_image :: "js_value \<Rightarrow> js_error + js_string" where
  "single_image mediaUrl = and_then (to_string mediaUrl) (\<lambda>src. Inr (single_image_html src))"

definition media_markup :: "js_value \<Rightarrow> js_value \<Rightarrow> js_error + js_string" where
  \<open>media_markup mediaUrl mediaType =
     (if mediaType = JStr (ascii ''video'') then video_markup mediaUrl
      else if isArray mediaUrl then
        and_then (forEach mediaUrl gallery_image (ascii ''<div class="gallery">''))
          (\<lambda>mediaHTML. Inr (mediaHTML @ ascii ''</div>''))
      else single_image mediaUrl)\<close>

definition card_markup ::
  "js_value \<Rightarrow> js_value \<Rightarrow> js_string \<Rightarrow> js_value \<Rightarrow> js_value \<Rightarrow> js_value \<Rightarrow> js_error + js_string" where
  "card_markup username title mediaHTML sourceUrl upvotes comments =
     and_then (to_string username) (\<lambda>username'.
     and_then (to_string title) (\<lambda>title'.
     and_then (to_string sourceUrl) (\<lambda>sourceUrl'.
     and_then (to_string upvotes) (\<lambda>upvotes'.
     and_then (to_string comments) (\<lambda>comments'.
       Inr (card_html username' title' mediaHTML sourceUrl' upvotes' comments'))))))"

text \<open>
  \<open>Inl e\<close> is a call that raised \<open>e\<close>. The one write of \<^verbatim>\<open>addRice\<close> to the page is
  \<^verbatim>\<open>appendChild\<close>, its last step, so a call that raises has written nothing.
\<close>

definition addRice ::
  "js_value \<Rightarrow> js_value \<Rightarrow> js_value \<Rightarrow> js_value \<Rightarrow> js_value \<Rightarrow> js_value \<Rightarrow> js_value \<Rightarrow> page
     \<Rightarrow> js_error + page" where
  "addRice username title mediaUrl mediaType sourceUrl upvotes comments p =
     and_then (media_markup mediaUrl mediaType) (\<lambda>mediaHTML.
     and_then (card_markup username title mediaHTML sourceUrl upvotes comments) (\<lambda>html.
       Inr (appendChild \<lparr>className = ascii ''rice-card'', innerHTML = html\<rparr> p)))"

section \<open>createGitHubIssue and submitRice\<close>

text \<open>
  A promise settles fulfilled (here with no value) or rejected with an error. The stub
  settles in the callback of a timer of 1000 ms, by a draw of \<^verbatim>\<open>Math.random\<close>, which
  is an argument of the model: the rational that the double drawn denotes. The literal
  \<^verbatim>\<open>0.1\<close> denotes the double nearest to one tenth, which is a little above it, and
  the comparison of two doubles is the comparison of the rationals they denote.
\<close>

definition double_0_1 :: rat where
  "double_0_1 = 3602879701896397 / 2 ^ 55"

datatype outcome = Fulfilled | Rejected js_error

record settlement =
  delay_ms :: nat
  settles :: outcome

definition createGitHubIssue :: "js_string \<Rightarrow> rat \<Rightarrow> settlement" where
  "createGitHubIssue redditUrl r =
     \<lparr>delay_ms = 1000,
      settles = (if r > double_0_1 then Fulfilled else Rejected (Error (ascii ''Network error'')))\<rparr>"

text \<open>
  The handlers of the chain \<^verbatim>\<open>.then(f).catch(g).finally(h)\<close>, as transformers of the
  page: \<open>then\<close> runs its handler on fulfilment and passes a rejection on, \<open>catch\<close> runs
  its handler on a rejection and fulfils, \<open>finally\<close> runs its handler on both.
\<close>

definition then_promise :: "(page \<Rightarrow> page) \<Rightarrow> outcome \<times> page \<Rightarrow> outcome \<times> page" where
  "then_promise f = (\<lambda>(out, p). case out of Fulfilled \<Rightarrow> (Fulfilled, f p) | Rejected e \<Rightarrow> (Rejected e, p))"

definition catch_promise :: "(js_error \<Rightarrow> page \<Rightarrow> page) \<Rightarrow> outcome \<times> page \<Rightarrow> outcome \<times> page" where
  "catch_promise g = (\<lambda>(out, p). case out of Fulfilled \<Rightarrow> (Fulfilled, p) | Rejected e \<Rightarrow> (Fulfilled, g e p))"

definition finally_promise :: "(page \<Rightarrow> page) \<Rightarrow> outcome \<times> page \<Rightarrow> outcome \<times> page" where
  "finally_promise h = (\<lambda>(out, p). (out, h p))"

text \<open>
  The synchronous part of \<^verbatim>\<open>submitRice\<close> either returns after an alert, or ends with
  the call \<^verbatim>\<open>createGitHubIssue(url)\<close>, whose promise is pending when it returns:
  \<open>Pending q url\<close> is the page at that call and the URL passed to it.
\<close>

datatype submission = Returned page | Pending page js_string

definition submitRice :: "page \<Rightarrow> submission" where
  "submitRice p =
     (let url = trim (redditUrl_value p) in
      if url = [] then Returned (alert (ascii ''Please enter a Reddit URL'') p)
      else if \<not> includes_js url (ascii ''reddit.com/r/unixporn'') then
        Returned (alert (ascii ''Please enter a valid r/unixporn post URL'') p)
      else
        Pending
          (issue_requested url (set_textContent (ascii ''Submitting...'') (set_disabled True p)))
          url)"

definition on_fulfilled :: "page \<Rightarrow> page" where
  "on_fulfilled p =
     set_value []
       (alert (ascii ''Rice submitted successfully! It will be reviewed and added if approved.'') p)"

definition on_rejected :: "js_error \<Rightarrow> page \<Rightarrow> page" where
  "on_rejected error p = alert (ascii ''Error submitting rice: '' @ message error) p"

definition on_finally :: "page \<Rightarrow> page" where
  "on_finally p = set_textContent (ascii ''Submit Rice'') (set_disabled False p)"

text \<open>The page after the three handlers have run on a settled promise.\<close>

definition settle :: "outcome \<Rightarrow> page \<Rightarrow> page" where
  "settle out p =
     snd (finally_promise on_finally (catch_promise on_rejected (then_promise on_fulfilled (out, p))))"

text \<open>A whole submission: the synchronous part, then the settlement of its promise.\<close>

definition submitted :: "page \<Rightarrow> outcome \<Rightarrow> page" where
  "submitted p out = (case submitRice p of Returned q \<Rightarrow> q | Pending q url \<Rightarrow> settle out q)"

definition on_keypress :: "js_string \<Rightarrow> page \<Rightarrow> submission" where
  "on_keypress key p = (if key = ascii ''Enter'' then submitRice p else Returned p)"

fun issue_calls :: "effect list \<Rightarrow> js_string list" where
  "issue_calls [] = []"
| "issue_calls (CreateIssue url # es) = url # issue_calls es"
| "issue_calls (e # es) = issue_calls es"

section \<open>Reading the markup of a card\<close>

text \<open>
  Assigning \<^verbatim>\<open>innerHTML\<close> makes the browser parse the string, and the elements of the
  card are the start tags it finds. \<open>tokenize\<close> follows the states of the HTML tokenizer
  for text, tags and attributes (names in lower case, attribute values double-quoted,
  single-quoted or unquoted, a repeated attribute dropped, a tag cut off by the end of
  the string dropped). Attribute values are kept as written: character references are
  not decoded. Comments, processing instructions and the content of raw-text elements
  are not read: on them the result is \<open>None\<close>. The construction of the tree is not
  modelled: an element is counted for each start tag.
\<close>

datatype tag = Tag (is_end: bool) (tag_name: js_string) (attributes: "(js_string \<times> js_string) list")

definition is_html_space :: "code_unit \<Rightarrow> bool" where
  "is_html_space c \<longleftrightarrow> c \<in> set [0x9, 0xA, 0xC, 0xD, 0x20]"

definition is_alpha :: "code_unit \<Rightarrow> bool" where
  "is_alpha c \<longleftrightarrow> (0x41 \<le> c \<and> c \<le> 0x5A) \<or> (0x61 \<le> c \<and> c \<le> 0x7A)"

definition lower :: "code_unit \<Rightarrow> code_unit" where
  "lower c = (if 0x41 \<le> c \<and> c \<le> 0x5A then c + 0x20 else c)"

fun push_name :: "code_unit \<Rightarrow> tag \<Rightarrow> tag" where
  "push_name c (Tag e nm as) = Tag e (nm @ [lower c]) as"

fun add_attribute :: "js_string \<Rightarrow> js_string \<Rightarrow> tag \<Rightarrow> tag" where
  "add_attribute n v (Tag e nm as) =
     (case map_of as n of None \<Rightarrow> Tag e nm (as @ [(n, v)]) | Some w \<Rightarrow> Tag e nm as)"

definition raw_text_elements :: "js_string list" where
  "raw_text_elements = map ascii [''script'', ''style'', ''textarea'', ''title'', ''xmp'', ''iframe'',
     ''noembed'', ''noframes'', ''noscript'', ''plaintext'']"

definition emit :: "tag \<Rightarrow> tag list option \<Rightarrow> tag list option" where
  "emit t rest =
     (if \<not> is_end t \<and> tag_name t \<in> set raw_text_elements then None else map_option ((#) t) rest)"

datatype scan_state =
  Data | TagOpen | EndTagOpen | TagName tag | BeforeAttrName tag | AttrName tag js_string
| AfterAttrName tag js_string | BeforeAttrValue tag js_string
| ValueDQ tag js_string js_string | ValueSQ tag js_string js_string | ValueUnq tag js_string js_string
| AfterValueQ tag | SelfClosing tag

fun tokenize :: "scan_state \<Rightarrow> js_string \<Rightarrow> tag list option" where
  "tokenize st [] = Some []"
| "tokenize Data (c # cs) = (if c = cu CHR ''<'' then tokenize TagOpen cs else tokenize Data cs)"
| "tokenize TagOpen (c # cs) =
     (if is_alpha c then tokenize (TagName (Tag False [lower c] [])) cs
      else if c = cu CHR ''/'' then tokenize EndTagOpen cs
      else if c = cu CHR ''!'' \<or> c = cu CHR ''?'' then None
      else if c = cu CHR ''<'' then tokenize TagOpen cs
      else tokenize Data cs)"
| "tokenize EndTagOpen (c # cs) =
     (if is_alpha c then tokenize (TagName (Tag True [lower c] [])) cs
      else if c = cu CHR ''>'' then tokenize Data cs
      else None)"
| "tokenize (TagName t) (c # cs) =
     (if is_html_space c then tokenize (BeforeAttrName t) cs
      else if c = cu CHR ''/'' then tokenize (SelfClosing t) cs
      else if c = cu CHR ''>'' then emit t (tokenize Data cs)
      else tokenize (TagName (push_name c t)) cs)"
| "tokenize (BeforeAttrName t) (c # cs) =
     (if is_html_space c then tokenize (BeforeAttrName t) cs
      else if c = cu CHR ''/'' then tokenize (SelfClosing t) cs
      else if c = cu CHR ''>'' then emit t (tokenize Data cs)
      else tokenize (AttrName t [lower c]) cs)"
| "tokenize (AttrName t n) (c # cs) =
     (if is_html_space c then tokenize (AfterAttrName t n) cs
      else if c = cu CHR ''/'' then tokenize (SelfClosing (add_attribute n [] t)) cs
      else if c = cu CHR ''>'' then emit (add_attribute n [] t) (tokenize Data cs)
      else if c = cu CHR ''='' then tokenize (BeforeAttrValue t n) cs
      else tokenize (AttrName t (n @ [lower c])) cs)"
| "tokenize (AfterAttrName t n) (c # cs) =
     (if is_html_space c then tokenize (AfterAttrName t n) cs
      else if c = cu CHR ''/'' then tokenize (SelfClosing (add_attribute n [] t)) cs
      else if c = cu CHR ''>'' then emit (add_attribute n [] t) (tokenize Data cs)
      else if c = cu CHR ''='' then tokenize (BeforeAttrValue t n) cs
      else tokenize (AttrName (add_attribute n [] t) [lower c]) cs)"
| \<open>tokenize (BeforeAttrValue t n) (c # cs) =
     (if is_html_space c then tokenize (BeforeAttrValue t n) cs
      else if c = cu CHR ''"'' then tokenize (ValueDQ t n []) cs
      else if c = cu CHR 0x27 then tokenize (ValueSQ t n []) cs
      else if c = cu CHR ''>'' then emit (add_attribute n [] t) (tokenize Data cs)
      else tokenize (ValueUnq t n [c]) cs)\<close>
| \<open>tokenize (ValueDQ t n v) (c # cs) =
     (if c = cu CHR ''"'' then tokenize (AfterValueQ (add_attribute n v t)) cs
      else tokenize (ValueDQ t n (v @ [c])) cs)\<close>
| "tokenize (ValueSQ t n v) (c # cs) =
     (if c = cu CHR 0x27 then tokenize (AfterValueQ (add_attribute n v t)) cs
      else tokenize (ValueSQ t n (v @ [c])) cs)"
| "tokenize (ValueUnq t n v) (c # cs) =
     (if is_html_space c then tokenize (BeforeAttrName (add_attribute n v t)) cs
      else if c = cu CHR ''>'' then emit (add_attribute n v t) (tokenize Data cs)
      else tokenize (ValueUnq t n (v @ [c])) cs)"
| "tokenize (AfterValueQ t) (c # cs) =
     (if is_html_space c then tokenize (BeforeAttrName t) cs
      else if c = cu CHR ''/'' then tokenize (SelfClosing t) cs
      else if c = cu CHR ''>'' then emit t (tokenize Data cs)
      else tokenize (AttrName t [lower c]) cs)"
| "tokenize (SelfClosing t) (c # cs) =
     (if c = cu CHR ''>'' then emit t (tokenize Data cs)
      else if is_html_space c then tokenize (BeforeAttrName t) cs
      else if c = cu CHR ''/'' then tokenize (SelfClosing t) cs
      else tokenize (AttrName t [lower c]) cs)"

definition elements :: "js_string \<Rightarrow> js_string \<Rightarrow> tag list option" where
  "elements name html =
     map_option (filter (\<lambda>t. \<not> is_end t \<and> tag_name t = name)) (tokenize Data html)"

definition attribute :: "js_string \<Rightarrow> tag \<Rightarrow> js_string option" where
  "attribute n t = map_of (attributes t) n"

section \<open>Vocabulary of the properties\<close>

text \<open>The validation of \<^verbatim>\<open>submitRice\<close>, on the value of the input field.\<close>

definition passes_validation :: "js_string \<Rightarrow> bool" where
  "passes_validation v \<longleftrightarrow>
     trim v \<noteq> [] \<and> includes_js (trim v) (ascii ''reddit.com/r/unixporn'')"

text \<open>A value converts when ToString returns on it; \<open>text_of\<close> is then the text it returns.\<close>

definition convertible :: "js_value \<Rightarrow> bool" where
  "convertible v \<longleftrightarrow> \<not> isl (to_string v)"

definition text_of :: "js_value \<Rightarrow> js_string" where
  "text_of v = (case to_string v of Inl e \<Rightarrow> [] | Inr t \<Rightarrow> t)"

text \<open>
  A value is interpolated into the card either as text between tags, where \<^verbatim>\<open><\<close>
  would open a tag, or into a double-quoted attribute, where a double quote would end
  the value.
\<close>

definition text_safe :: "js_value \<Rightarrow> bool" where
  "text_safe v \<longleftrightarrow> convertible v \<and> cu CHR ''<'' \<notin> set (text_of v)"

definition attr_safe :: "js_value \<Rightarrow> bool" where
  \<open>attr_safe v \<longleftrightarrow> convertible v \<and> cu CHR ''"'' \<notin> set (text_of v)\<close>


text \<open>The elements an array holds, in order, its holes left out.\<close>

fun present :: "'a option list \<Rightarrow> 'a list" where
  "present [] = []"
| "present (None # xs) = present xs"
| "present (Some x # xs) = x # present xs"

text \<open>
  The media references of an entry that is not a video: the elements that a sequence
  holds, or the one value.
\<close>

fun media_references :: "js_value \<Rightarrow> js_value list" where
  "media_references (JArr xs) = present xs"
| "media_references v = [v]"

text \<open>The values that a call of \<^verbatim>\<open>addRice\<close> converts, in the order of their conversion.\<close>

definition interpolated ::
  "js_value \<Rightarrow> js_value \<Rightarrow> js_value \<Rightarrow> js_value \<Rightarrow> js_value \<Rightarrow> js_value \<Rightarrow> js_value
     \<Rightarrow> js_value list" where
  "interpolated username title mediaUrl mediaType sourceUrl upvotes comments =
     (if mediaType = JStr (ascii ''video'') then [mediaUrl] else media_references mediaUrl)
     @ [username, title, sourceUrl, upvotes, comments]"

text \<open>A page as loaded: no card, an empty input, the button enabled.\<close>

definition example_page :: page where
  "example_page =
     \<lparr>riceGrid_children = [], redditUrl_value = [], submitBtn_disabled = False,
      submitBtn_textContent = ascii ''Submit Rice'', trace = []\<rparr>"

text \<open>The tags of the card template, around the markup of the media.\<close>

definition video_tags :: "js_string \<Rightarrow> tag list" where
  "video_tags src =
     [Tag False (ascii ''video'') [(ascii ''class'', ascii ''rice-video''), (ascii ''controls'', [])],
      Tag False (ascii ''source'') [(ascii ''src'', src), (ascii ''type'', ascii ''video/mp4'')],
      Tag True (ascii ''video'') []]"



definition head_tags :: "tag list" where
  "head_tags =
     [Tag False (ascii ''div'') [(ascii ''class'', ascii ''rice-header'')],
      Tag False (ascii ''div'') [(ascii ''class'', ascii ''username'')],
      Tag True (ascii ''div'') [],
      Tag False (ascii ''div'') [(ascii ''class'', ascii ''rice-title'')],
      Tag True (ascii ''div'') [],
      Tag True (ascii ''div'') [],
      Tag False (ascii ''div'') [(ascii ''class'', ascii ''media-container'')]]"

definition tail_tags :: "js_string \<Rightarrow> tag list" where
  "tail_tags href =
     [Tag True (ascii ''div'') [],
      Tag False (ascii ''a'')
        [(ascii ''href'', href), (ascii ''class'', ascii ''post-link''),
         (ascii ''target'', ascii ''_blank'')],
      Tag True (ascii ''a'') [],
      Tag False (ascii ''div'') [(ascii ''class'', ascii ''stats'')],
      Tag False (ascii ''span'') [], Tag True (ascii ''span'') [],
      Tag False (ascii ''span'') [], Tag True (ascii ''span'') [],
      Tag True (ascii ''div'') []]"

section \<open>Lemmas on strings and on the handlers\<close>

lemmas chars = ascii_def cu_def is_html_space_def is_alpha_def lower_def emit_def raw_text_elements_def

lemmas writes = alert_def set_disabled_def set_textContent_def set_value_def issue_requested_def

lemma includes_js_suffix: "includes_js (xs @ ys) ys"
proof (induction xs)
  case Nil
  show ?case by (cases ys) simp_all
next
  case (Cons x xs)
  then show ?case by simp
qed

lemma issue_calls_append: "issue_calls (xs @ ys) = issue_calls xs @ issue_calls ys"
  by (induction xs rule: issue_calls.induct) simp_all

lemma submitRice_valid:
  assumes "passes_validation (redditUrl_value p)"
  shows "submitRice p =
    Pending
      (p\<lparr>submitBtn_disabled := True, submitBtn_textContent := ascii ''Submitting...'',
         trace := trace p @ [SetDisabled True, SetTextContent (ascii ''Submitting...''),
                             CreateIssue (trim (redditUrl_value p))]\<rparr>)
      (trim (redditUrl_value p))"
  using assms by (simp add: passes_validation_def submitRice_def Let_def writes)

lemma settle_Fulfilled:
  "settle Fulfilled s =
     s\<lparr>redditUrl_value := [], submitBtn_disabled := False,
       submitBtn_textContent := ascii ''Submit Rice'',
       trace := trace s @
         [Alert (ascii ''Rice submitted successfully! It will be reviewed and added if approved.''),
          SetValue [], SetDisabled False, SetTextContent (ascii ''Submit Rice'')]\<rparr>"
  by (simp add: settle_def then_promise_def catch_promise_def finally_promise_def
      on_fulfilled_def on_finally_def writes)

lemma settle_Rejected:
  "settle (Rejected e) s =
     s\<lparr>submitBtn_disabled := False, submitBtn_textContent := ascii ''Submit Rice'',
       trace := trace s @
         [Alert (ascii ''Error submitting rice: '' @ message e),
          SetDisabled False, SetTextContent (ascii ''Submit Rice'')]\<rparr>"
  by (simp add: settle_def then_promise_def catch_promise_def finally_promise_def
      on_rejected_def on_finally_def writes)

lemma example_url_passes:
  "passes_validation (ascii ''https://reddit.com/r/unixporn/comments/abc123'')"
  by (simp add: passes_validation_def trim_def ascii_def cu_def is_white_space_def)

section \<open>The submission flow\<close>

text \<open>
  Claim C1. When the value of the input passes the validation, \<^verbatim>\<open>submitRice\<close> disables
  the button and sets its label to the in-progress text before it calls
  \<^verbatim>\<open>createGitHubIssue\<close>; when the promise settles, fulfilled or rejected, the handlers
  leave the button enabled and labelled \<^verbatim>\<open>Submit Rice\<close>, whatever the page was at that
  moment, and these two writes are the last of the submission.
\<close>

theorem submitRice_disables_then_restores:
  assumes "passes_validation (redditUrl_value p)"
  shows "\<exists>q. submitRice p = Pending q (trim (redditUrl_value p))
    \<and> trace q = trace p @ [SetDisabled True, SetTextContent (ascii ''Submitting...''),
                           CreateIssue (trim (redditUrl_value p))]
    \<and> submitBtn_disabled q \<and> submitBtn_textContent q = ascii ''Submitting...''
    \<and> (\<forall>out s. \<not> submitBtn_disabled (settle out s)
                \<and> submitBtn_textContent (settle out s) = ascii ''Submit Rice'')
    \<and> (\<forall>out. \<exists>mid. trace (submitted p out)
                = trace q @ mid @ [SetDisabled False, SetTextContent (ascii ''Submit Rice'')])"
proof -
  let ?q = "p\<lparr>submitBtn_disabled := True, submitBtn_textContent := ascii ''Submitting...'',
         trace := trace p @ [SetDisabled True, SetTextContent (ascii ''Submitting...''),
                             CreateIssue (trim (redditUrl_value p))]\<rparr>"
  have s: "submitRice p = Pending ?q (trim (redditUrl_value p))"
    using assms by (rule submitRice_valid)
  have fin: "\<not> submitBtn_disabled (settle out s)
      \<and> submitBtn_textContent (settle out s) = ascii ''Submit Rice''" for out s
    by (cases out) (simp_all add: settle_Fulfilled settle_Rejected)
  have tr: "\<exists>mid. trace (submitted p out)
      = trace ?q @ mid @ [SetDisabled False, SetTextContent (ascii ''Submit Rice'')]" for out
    by (cases out) (simp_all add: submitted_def s settle_Fulfilled settle_Rejected)
  from s fin tr show ?thesis
    by (intro exI [of _ ?q]) simp
qed

theorem submitRice_disables_then_restores_witness:
  "passes_validation
      (redditUrl_value (example_page\<lparr>redditUrl_value := ascii ''https://reddit.com/r/unixporn/comments/abc123''\<rparr>))
   \<and> (\<exists>q. submitRice (example_page\<lparr>redditUrl_value := ascii ''https://reddit.com/r/unixporn/comments/abc123''\<rparr>)
            = Pending q (ascii ''https://reddit.com/r/unixporn/comments/abc123'')
      \<and> trace q = [SetDisabled True, SetTextContent (ascii ''Submitting...''),
                   CreateIssue (ascii ''https://reddit.com/r/unixporn/comments/abc123'')]
      \<and> submitBtn_disabled q \<and> submitBtn_textContent q = ascii ''Submitting...''
      \<and> (\<forall>out s. \<not> submitBtn_disabled (settle out s)
                  \<and> submitBtn_textContent (settle out s) = ascii ''Submit Rice'')
      \<and> (\<forall>out. \<exists>mid. trace (submitted (example_page\<lparr>redditUrl_value := ascii ''https://reddit.com/r/unixporn/comments/abc123''\<rparr>) out)
                  = trace q @ mid @ [SetDisabled False, SetTextContent (ascii ''Submit Rice'')]))"
proof -
  let ?p = "example_page\<lparr>redditUrl_value := ascii ''https://reddit.com/r/unixporn/comments/abc123''\<rparr>"
  have h: "passes_validation (redditUrl_value ?p)"
    using example_url_passes by simp
  have t: "trim (redditUrl_value ?p) = ascii ''https://reddit.com/r/unixporn/comments/abc123''"
    by (simp add: trim_def ascii_def cu_def is_white_space_def)
  have e: "trace ?p = []"
    by (simp add: example_page_def)
  from submitRice_disables_then_restores [OF h] h show ?thesis
    unfolding t e by simp
qed

text \<open>
  Claim C2. When the trimmed value of the input is empty or lacks
  \<^verbatim>\<open>reddit.com/r/unixporn\<close>, \<^verbatim>\<open>submitRice\<close> shows one of its two validation alerts
  and returns: the alert is all that happens, so the button is neither disabled nor
  relabelled, the input is untouched and \<^verbatim>\<open>createGitHubIssue\<close> is not called.
\<close>

theorem submitRice_rejects_invalid:
  assumes "trim (redditUrl_value p) = []
    \<or> \<not> includes_js (trim (redditUrl_value p)) (ascii ''reddit.com/r/unixporn'')"
  shows "\<exists>msg. submitRice p = Returned (p\<lparr>trace := trace p @ [Alert msg]\<rparr>)
    \<and> (msg = ascii ''Please enter a Reddit URL''
         \<or> msg = ascii ''Please enter a valid r/unixporn post URL'')
    \<and> submitBtn_disabled (p\<lparr>trace := trace p @ [Alert msg]\<rparr>) = submitBtn_disabled p
    \<and> submitBtn_textContent (p\<lparr>trace := trace p @ [Alert msg]\<rparr>) = submitBtn_textContent p
    \<and> issue_calls (trace (p\<lparr>trace := trace p @ [Alert msg]\<rparr>)) = issue_calls (trace p)
    \<and> (\<forall>out. submitted p out = p\<lparr>trace := trace p @ [Alert msg]\<rparr>)"
proof (cases "trim (redditUrl_value p) = []")
  case True
  then show ?thesis
    by (intro exI [of _ "ascii ''Please enter a Reddit URL''"])
       (simp add: submitRice_def submitted_def alert_def issue_calls_append)
next
  case False
  with assms show ?thesis
    by (intro exI [of _ "ascii ''Please enter a valid r/unixporn post URL''"])
       (simp add: submitRice_def submitted_def alert_def issue_calls_append)
qed

theorem submitRice_rejects_invalid_witness:
  "trim (redditUrl_value (example_page\<lparr>redditUrl_value := ascii ''  ''\<rparr>)) = []
   \<and> submitRice (example_page\<lparr>redditUrl_value := ascii ''  ''\<rparr>)
       = Returned (example_page\<lparr>redditUrl_value := ascii ''  '',
                     trace := [Alert (ascii ''Please enter a Reddit URL'')]\<rparr>)
   \<and> includes_js (trim (ascii ''https://example.com/post'')) (ascii ''reddit.com/r/unixporn'') = False
   \<and> submitRice (example_page\<lparr>redditUrl_value := ascii ''https://example.com/post''\<rparr>)
       = Returned (example_page\<lparr>redditUrl_value := ascii ''https://example.com/post'',
                     trace := [Alert (ascii ''Please enter a valid r/unixporn post URL'')]\<rparr>)"
proof -
  let ?p = "example_page\<lparr>redditUrl_value := ascii ''  ''\<rparr>"
  let ?q = "example_page\<lparr>redditUrl_value := ascii ''https://example.com/post''\<rparr>"
  have t1: "trim (redditUrl_value ?p) = []"
    by (simp add: trim_def ascii_def cu_def is_white_space_def)
  have t2: "trim (ascii ''https://example.com/post'') = ascii ''https://example.com/post''"
    by (simp add: trim_def ascii_def cu_def is_white_space_def)
  have i2: "\<not> includes_js (ascii ''https://example.com/post'') (ascii ''reddit.com/r/unixporn'')"
    by (simp add: ascii_def cu_def)
  have n2: "ascii ''https://example.com/post'' \<noteq> []"
    by (simp add: ascii_def)
  have a1: "submitRice ?p = Returned (?p\<lparr>trace := trace ?p @ [Alert (ascii ''Please enter a Reddit URL'')]\<rparr>)"
    using submitRice_rejects_invalid [of ?p] t1
    by (auto simp: submitRice_def alert_def)
  have a2: "submitRice ?q = Returned (?q\<lparr>trace := trace ?q @ [Alert (ascii ''Please enter a valid r/unixporn post URL'')]\<rparr>)"
    using submitRice_rejects_invalid [of ?q] t2 i2 n2
    by (auto simp: submitRice_def alert_def)
  from a1 a2 t1 t2 i2 show ?thesis
    by (simp add: example_page_def)
qed

text \<open>
  Claim C3. When the value of the input passes the validation, \<^verbatim>\<open>submitRice\<close> calls
  \<^verbatim>\<open>createGitHubIssue\<close> once, with the trimmed value; when the promise is fulfilled, the
  handlers show the success alert and set the input to the empty string, and call
  \<^verbatim>\<open>createGitHubIssue\<close> no more.
\<close>

theorem submitRice_success:
  assumes "passes_validation (redditUrl_value p)"
  shows "(\<exists>q. submitRice p = Pending q (trim (redditUrl_value p))
           \<and> issue_calls (trace q) = issue_calls (trace p) @ [trim (redditUrl_value p)])
    \<and> trace (submitted p Fulfilled) = trace p @
        [SetDisabled True, SetTextContent (ascii ''Submitting...''),
         CreateIssue (trim (redditUrl_value p)),
         Alert (ascii ''Rice submitted successfully! It will be reviewed and added if approved.''),
         SetValue [], SetDisabled False, SetTextContent (ascii ''Submit Rice'')]
    \<and> issue_calls (trace (submitted p Fulfilled)) = issue_calls (trace p) @ [trim (redditUrl_value p)]
    \<and> redditUrl_value (submitted p Fulfilled) = []
    \<and> (\<forall>s. redditUrl_value (settle Fulfilled s) = []
           \<and> trace (settle Fulfilled s) = trace s @
               [Alert (ascii ''Rice submitted successfully! It will be reviewed and added if approved.''),
                SetValue [], SetDisabled False, SetTextContent (ascii ''Submit Rice'')])"
  by (simp add: submitRice_valid [OF assms] submitted_def settle_Fulfilled issue_calls_append)

theorem submitRice_success_witness:
  "passes_validation
      (redditUrl_value (example_page\<lparr>redditUrl_value := ascii ''https://reddit.com/r/unixporn/comments/abc123''\<rparr>))
   \<and> trace (submitted (example_page\<lparr>redditUrl_value := ascii ''https://reddit.com/r/unixporn/comments/abc123''\<rparr>) Fulfilled)
      = [SetDisabled True, SetTextContent (ascii ''Submitting...''),
         CreateIssue (ascii ''https://reddit.com/r/unixporn/comments/abc123''),
         Alert (ascii ''Rice submitted successfully! It will be reviewed and added if approved.''),
         SetValue [], SetDisabled False, SetTextContent (ascii ''Submit Rice'')]
   \<and> issue_calls (trace (submitted (example_page\<lparr>redditUrl_value := ascii ''https://reddit.com/r/unixporn/comments/abc123''\<rparr>) Fulfilled))
      = [ascii ''https://reddit.com/r/unixporn/comments/abc123'']
   \<and> redditUrl_value (submitted (example_page\<lparr>redditUrl_value := ascii ''https://reddit.com/r/unixporn/comments/abc123''\<rparr>) Fulfilled) = []"
proof -
  let ?p = "example_page\<lparr>redditUrl_value := ascii ''https://reddit.com/r/unixporn/comments/abc123''\<rparr>"
  have h: "passes_validation (redditUrl_value ?p)"
    using example_url_passes by simp
  have t: "trim (redditUrl_value ?p) = ascii ''https://reddit.com/r/unixporn/comments/abc123''"
    by (simp add: trim_def ascii_def cu_def is_white_space_def)
  have e: "trace ?p = []"
    by (simp add: example_page_def)
  from submitRice_success [OF h] h show ?thesis
    unfolding t e by simp
qed

text \<open>
  Claim C4. When the value of the input passes the validation and the promise of
  \<^verbatim>\<open>createGitHubIssue\<close> is rejected with an error, the handlers show one alert, whose text
  is \<^verbatim>\<open>Error submitting rice: \<close> followed by the message of the error, and re-enable the
  button; \<^verbatim>\<open>createGitHubIssue\<close> is not called again.
\<close>

theorem submitRice_failure:
  assumes "passes_validation (redditUrl_value p)"
  shows "trace (submitted p (Rejected e)) = trace p @
        [SetDisabled True, SetTextContent (ascii ''Submitting...''),
         CreateIssue (trim (redditUrl_value p)),
         Alert (ascii ''Error submitting rice: '' @ message e),
         SetDisabled False, SetTextContent (ascii ''Submit Rice'')]
    \<and> includes_js (ascii ''Error submitting rice: '' @ message e) (message e)
    \<and> issue_calls (trace (submitted p (Rejected e))) = issue_calls (trace p) @ [trim (redditUrl_value p)]
    \<and> (\<forall>s. trace (settle (Rejected e) s) = trace s @
               [Alert (ascii ''Error submitting rice: '' @ message e),
                SetDisabled False, SetTextContent (ascii ''Submit Rice'')]
           \<and> issue_calls (trace (settle (Rejected e) s)) = issue_calls (trace s))"
  by (simp add: submitRice_valid [OF assms] submitted_def settle_Rejected issue_calls_append
      includes_js_suffix)

theorem submitRice_failure_witness:
  "passes_validation
      (redditUrl_value (example_page\<lparr>redditUrl_value := ascii ''https://reddit.com/r/unixporn/comments/abc123''\<rparr>))
   \<and> trace (submitted (example_page\<lparr>redditUrl_value := ascii ''https://reddit.com/r/unixporn/comments/abc123''\<rparr>)
         (Rejected (Error (ascii ''Network error''))))
      = [SetDisabled True, SetTextContent (ascii ''Submitting...''),
         CreateIssue (ascii ''https://reddit.com/r/unixporn/comments/abc123''),
         Alert (ascii ''Error submitting rice: Network error''),
         SetDisabled False, SetTextContent (ascii ''Submit Rice'')]
   \<and> issue_calls (trace (submitted (example_page\<lparr>redditUrl_value := ascii ''https://reddit.com/r/unixporn/comments/abc123''\<rparr>)
         (Rejected (Error (ascii ''Network error'')))))
      = [ascii ''https://reddit.com/r/unixporn/comments/abc123'']"
proof -
  let ?p = "example_page\<lparr>redditUrl_value := ascii ''https://reddit.com/r/unixporn/comments/abc123''\<rparr>"
  have h: "passes_validation (redditUrl_value ?p)"
    using example_url_passes by simp
  have t: "trim (redditUrl_value ?p) = ascii ''https://reddit.com/r/unixporn/comments/abc123''"
    by (simp add: trim_def ascii_def cu_def is_white_space_def)
  have e: "trace ?p = []"
    by (simp add: example_page_def)
  from submitRice_failure [OF h, of "Error (ascii ''Network error'')"] h show ?thesis
    unfolding t e by (simp add: ascii_def)
qed

text \<open>
  Claim C10. When the value of the input passes the validation and the promise is
  rejected, the handlers do not write the input: it holds the value it held, from any
  page state; after a submission that failed the button is enabled and \<^verbatim>\<open>submitRice\<close>
  submits the same URL again.
\<close>

theorem submitRice_failure_keeps_input:
  assumes "passes_validation (redditUrl_value p)"
  shows "redditUrl_value (submitted p (Rejected e)) = redditUrl_value p
    \<and> (\<forall>s. redditUrl_value (settle (Rejected e) s) = redditUrl_value s)
    \<and> \<not> submitBtn_disabled (submitted p (Rejected e))
    \<and> (\<exists>q. submitRice (submitted p (Rejected e)) = Pending q (trim (redditUrl_value p)))"
proof -
  have v: "redditUrl_value (submitted p (Rejected e)) = redditUrl_value p"
    by (simp add: submitRice_valid [OF assms] submitted_def settle_Rejected)
  then have "passes_validation (redditUrl_value (submitted p (Rejected e)))"
    using assms by simp
  from submitRice_valid [OF this] have
    "\<exists>q. submitRice (submitted p (Rejected e)) = Pending q (trim (redditUrl_value p))"
    by (simp add: v)
  moreover have "\<not> submitBtn_disabled (submitted p (Rejected e))"
    by (simp add: submitRice_valid [OF assms] submitted_def settle_Rejected)
  ultimately show ?thesis
    using v by (simp add: settle_Rejected)
qed

theorem submitRice_failure_keeps_input_witness:
  "passes_validation
      (redditUrl_value (example_page\<lparr>redditUrl_value := ascii ''https://reddit.com/r/unixporn/comments/abc123''\<rparr>))
   \<and> redditUrl_value (submitted (example_page\<lparr>redditUrl_value := ascii ''https://reddit.com/r/unixporn/comments/abc123''\<rparr>)
         (Rejected (Error (ascii ''Network error''))))
      = ascii ''https://reddit.com/r/unixporn/comments/abc123''
   \<and> \<not> submitBtn_disabled (submitted (example_page\<lparr>redditUrl_value := ascii ''https://reddit.com/r/unixporn/comments/abc123''\<rparr>)
         (Rejected (Error (ascii ''Network error''))))
   \<and> (\<exists>q. submitRice (submitted (example_page\<lparr>redditUrl_value := ascii ''https://reddit.com/r/unixporn/comments/abc123''\<rparr>)
         (Rejected (Error (ascii ''Network error''))))
        = Pending q (ascii ''https://reddit.com/r/unixporn/comments/abc123''))"
proof -
  let ?p = "example_page\<lparr>redditUrl_value := ascii ''https://reddit.com/r/unixporn/comments/abc123''\<rparr>"
  have h: "passes_validation (redditUrl_value ?p)"
    using example_url_passes by simp
  have t: "trim (redditUrl_value ?p) = ascii ''https://reddit.com/r/unixporn/comments/abc123''"
    by (simp add: trim_def ascii_def cu_def is_white_space_def)
  from submitRice_failure_keeps_input [OF h, of "Error (ascii ''Network error'')"] h show ?thesis
    unfolding t by simp
qed

section \<open>The stub of the issue tracker\<close>

text \<open>
  Claim C9. With the draw of \<^verbatim>\<open>Math.random\<close> as the argument \<open>r\<close>,
  \<^verbatim>\<open>createGitHubIssue\<close> settles after the fixed delay of 1000 ms, fulfilled with no value
  when \<open>r > 0.1\<close>, the comparison of the code with the double that \<^verbatim>\<open>0.1\<close> denotes,
  and otherwise rejected with an error whose message is \<^verbatim>\<open>Network error\<close>; the URL
  has no part in it. The draws of \<open>[0, 1)\<close> that fulfil are those above that double,
  a share of the range that is nine tenths to seventeen decimal places.
\<close>

theorem createGitHubIssue_outcome:
  "createGitHubIssue url r =
     \<lparr>delay_ms = 1000,
      settles = (if r > double_0_1 then Fulfilled else Rejected (Error (ascii ''Network error'')))\<rparr>
   \<and> createGitHubIssue url r = createGitHubIssue url' r
   \<and> (settles (createGitHubIssue url r) = Fulfilled) = (r > double_0_1)
   \<and> (settles (createGitHubIssue url r) \<noteq> Fulfilled) =
       (settles (createGitHubIssue url r) = Rejected (Error (ascii ''Network error'')))
   \<and> {d. 0 \<le> d \<and> d < 1 \<and> settles (createGitHubIssue url d) = Fulfilled} = {double_0_1 <..< 1}
   \<and> double_0_1 = 3602879701896397 / 36028797018963968
   \<and> 1 / 10 < double_0_1
   \<and> \<bar>(1 - double_0_1) - 9 / 10\<bar> < 1 / 10 ^ 17"
proof -
  have v: "double_0_1 = 3602879701896397 / 36028797018963968"
    by (simp add: double_0_1_def)
  have d: "0 \<le> double_0_1" "1 / 10 < double_0_1" "\<bar>(1 - double_0_1) - 9 / 10\<bar> < 1 / 10 ^ 17"
    unfolding v by simp_all
  have "d \<in> {d. 0 \<le> d \<and> d < 1 \<and> settles (createGitHubIssue url d) = Fulfilled}
      \<longleftrightarrow> d \<in> {double_0_1 <..< 1}" for d
    using d(1) by (simp add: createGitHubIssue_def)
  then have s: "{d. 0 \<le> d \<and> d < 1 \<and> settles (createGitHubIssue url d) = Fulfilled} = {double_0_1 <..< 1}"
    by blast
  have o: "createGitHubIssue url r =
     \<lparr>delay_ms = 1000,
      settles = (if r > double_0_1 then Fulfilled else Rejected (Error (ascii ''Network error'')))\<rparr>"
    "createGitHubIssue url r = createGitHubIssue url' r"
    "(settles (createGitHubIssue url r) = Fulfilled) = (r > double_0_1)"
    "(settles (createGitHubIssue url r) \<noteq> Fulfilled) =
       (settles (createGitHubIssue url r) = Rejected (Error (ascii ''Network error'')))"
    by (simp_all add: createGitHubIssue_def)
  from o s v d(2,3) show ?thesis
    by (intro conjI)
qed

theorem createGitHubIssue_outcome_witness:
  "settles (createGitHubIssue (ascii ''https://reddit.com/r/unixporn/comments/abc123'') (1 / 2)) = Fulfilled
   \<and> settles (createGitHubIssue [] (3602879701896397 / 36028797018963968))
       = Rejected (Error (ascii ''Network error''))
   \<and> settles (createGitHubIssue [] (1 / 20)) = Rejected (Error (ascii ''Network error''))
   \<and> delay_ms (createGitHubIssue [] (1 / 20)) = 1000"
proof -
  have v: "double_0_1 = 3602879701896397 / 36028797018963968"
    by (simp add: double_0_1_def)
  have a: "(1 / 2 :: rat) > double_0_1"
    "\<not> (3602879701896397 / 36028797018963968 :: rat) > double_0_1"
    "\<not> (1 / 20 :: rat) > double_0_1"
    unfolding v by simp_all
  note p = createGitHubIssue_outcome
    [of "ascii ''https://reddit.com/r/unixporn/comments/abc123''" "1 / 2" "[]"]
  note q = createGitHubIssue_outcome [of "[]" "3602879701896397 / 36028797018963968" "[]"]
  note r = createGitHubIssue_outcome [of "[]" "1 / 20" "[]"]
  have "settles (createGitHubIssue (ascii ''https://reddit.com/r/unixporn/comments/abc123'') (1 / 2))
      = Fulfilled"
    using p [THEN conjunct2, THEN conjunct2, THEN conjunct1] a(1) by blast
  moreover have "settles (createGitHubIssue [] (3602879701896397 / 36028797018963968))
      = Rejected (Error (ascii ''Network error''))"
    using q [THEN conjunct2, THEN conjunct2, THEN conjunct1]
      q [THEN conjunct2, THEN conjunct2, THEN conjunct2, THEN conjunct1] a(2)
    by blast
  moreover have "settles (createGitHubIssue [] (1 / 20)) = Rejected (Error (ascii ''Network error''))"
    using r [THEN conjunct2, THEN conjunct2, THEN conjunct1]
      r [THEN conjunct2, THEN conjunct2, THEN conjunct2, THEN conjunct1] a(3)
    by blast
  moreover have "delay_ms (createGitHubIssue [] (1 / 20)) = 1000"
    by (simp only: r [THEN conjunct1] settlement.simps)
  ultimately show ?thesis
    by (intro conjI)
qed

section \<open>Lemmas on conversions\<close>

lemma and_then_Inr [simp]: "and_then (Inr a) f = f a"
  by (simp add: and_then_def)

lemma and_then_Inl [simp]: "and_then (Inl e) f = Inl e"
  by (simp add: and_then_def)

lemma isl_and_then: "isl (and_then r f) \<longleftrightarrow> isl r \<or> (\<exists>a. r = Inr a \<and> isl (f a))"
  by (cases r) simp_all

lemma convertible_to_string: "convertible v \<Longrightarrow> to_string v = Inr (text_of v)"
  by (cases "to_string v") (simp_all add: convertible_def text_of_def)

lemma text_safe_to_string: "text_safe v \<Longrightarrow> to_string v = Inr (text_of v)"
  by (simp add: text_safe_def convertible_to_string)

lemma attr_safe_to_string: "attr_safe v \<Longrightarrow> to_string v = Inr (text_of v)"
  by (simp add: attr_safe_def convertible_to_string)


lemma forEach_gallery_image:
  "list_all convertible (present xs) \<Longrightarrow>
   forEach_elements xs gallery_image s
     = Inr (s @ concat (map (\<lambda>v. gallery_image_html (text_of v)) (present xs)))"
  by (induction xs arbitrary: s rule: present.induct)
     (simp_all add: gallery_image_def convertible_to_string)

lemma forEach_gallery_image_raises:
  "\<not> list_all convertible (present xs) \<Longrightarrow> isl (forEach_elements xs gallery_image s)"
proof (induction xs arbitrary: s rule: present.induct)
  case (3 x xs)
  then show ?case
    by (cases "to_string x") (simp_all add: gallery_image_def convertible_def)
qed simp_all

lemma media_markup_video:
  assumes "mediaType = JStr (ascii ''video'')" and "convertible mediaUrl"
  shows "media_markup mediaUrl mediaType = Inr (video_html (text_of mediaUrl))"
  using assms by (simp add: media_markup_def video_markup_def convertible_to_string)

lemma media_markup_gallery:
  assumes "mediaType \<noteq> JStr (ascii ''video'')" and "list_all convertible (present xs)"
  shows \<open>media_markup (JArr xs) mediaType
    = Inr ((ascii ''<div class="gallery">''
            @ concat (map (\<lambda>v. gallery_image_html (text_of v)) (present xs))) @ ascii ''</div>'')\<close>
  using assms by (simp add: media_markup_def forEach_gallery_image)


lemma media_references_single: "\<not> isArray mediaUrl \<Longrightarrow> media_references mediaUrl = [mediaUrl]"
  by (cases mediaUrl) simp_all

lemma media_markup_returns_iff:
  "\<not> isl (media_markup mediaUrl mediaType) \<longleftrightarrow>
   list_all convertible
     (if mediaType = JStr (ascii ''video'') then [mediaUrl] else media_references mediaUrl)"
proof (cases "mediaType = JStr (ascii ''video'')")
  case True
  then show ?thesis
    by (cases "to_string mediaUrl") (simp_all add: media_markup_def video_markup_def convertible_def)
next
  case False
  show ?thesis
  proof (cases "isArray mediaUrl")
    case True
    then obtain xs where m: "mediaUrl = JArr xs"
      by (cases mediaUrl) simp_all
    show ?thesis
    proof (cases "list_all convertible (present xs)")
      case True
      with False m show ?thesis by (simp add: media_markup_gallery)
    next
      case raises: False
      from forEach_gallery_image_raises [OF raises] False m raises show ?thesis
        by (simp add: media_markup_def isl_and_then)
    qed
  next
    case single: False
    with False show ?thesis
      by (cases "to_string mediaUrl")
         (simp_all add: media_markup_def single_image_def convertible_def media_references_single)
  qed
qed

lemma card_markup_returns:
  assumes "convertible username" "convertible title" "convertible sourceUrl"
    "convertible upvotes" "convertible comments"
  shows "card_markup username title mediaHTML sourceUrl upvotes comments
    = Inr (card_html (text_of username) (text_of title) mediaHTML (text_of sourceUrl)
        (text_of upvotes) (text_of comments))"
  using assms by (simp add: card_markup_def convertible_to_string)

lemma card_markup_returns_iff:
  "\<not> isl (card_markup username title mediaHTML sourceUrl upvotes comments) \<longleftrightarrow>
   list_all convertible [username, title, sourceUrl, upvotes, comments]"
  by (cases "to_string username"; cases "to_string title"; cases "to_string sourceUrl";
      cases "to_string upvotes"; cases "to_string comments")
     (simp_all add: card_markup_def convertible_def)


lemma addRice_appends:
  assumes "list_all convertible (interpolated username title mediaUrl mediaType sourceUrl upvotes comments)"
  shows "\<exists>html. \<forall>p. addRice username title mediaUrl mediaType sourceUrl upvotes comments p
    = Inr (appendChild \<lparr>className = ascii ''rice-card'', innerHTML = html\<rparr> p)"
proof -
  from assms media_markup_returns_iff [of mediaUrl mediaType]
  obtain mediaHTML where m: "media_markup mediaUrl mediaType = Inr mediaHTML"
    by (cases "media_markup mediaUrl mediaType") (simp_all add: interpolated_def)
  from assms card_markup_returns_iff [of username title mediaHTML sourceUrl upvotes comments]
  obtain html where c: "card_markup username title mediaHTML sourceUrl upvotes comments = Inr html"
    by (cases "card_markup username title mediaHTML sourceUrl upvotes comments")
       (simp_all add: interpolated_def)
  have "\<forall>p. addRice username title mediaUrl mediaType sourceUrl upvotes comments p
    = Inr (appendChild \<lparr>className = ascii ''rice-card'', innerHTML = html\<rparr> p)"
    by (simp add: addRice_def m c)
  then show ?thesis ..
qed

section \<open>Lemmas on the markup of a card\<close>

lemma tokenize_Data_text:
  "cu CHR ''<'' \<notin> set t \<Longrightarrow> tokenize Data (t @ rest) = tokenize Data rest"
  by (induction t) auto

lemma tokenize_ValueDQ_text:
  \<open>cu CHR ''"'' \<notin> set v \<Longrightarrow>
   tokenize (ValueDQ tg n acc) (v @ rest) = tokenize (ValueDQ tg n (acc @ v)) rest\<close>
  by (induction v arbitrary: acc) auto

lemma tokenize_video:
  assumes \<open>cu CHR ''"'' \<notin> set src\<close>
  shows "tokenize Data (video_html src @ rest)
    = map_option (\<lambda>ts. video_tags src @ ts) (tokenize Data rest)"
  using assms
  by (simp add: video_html_def video_tags_def chars tokenize_ValueDQ_text option.map_comp o_def)





lemma tokenize_card:
  assumes "cu CHR ''<'' \<notin> set username" "cu CHR ''<'' \<notin> set title"
    "cu CHR ''<'' \<notin> set upvotes" "cu CHR ''<'' \<notin> set comments"
    and \<open>cu CHR ''"'' \<notin> set sourceUrl\<close>
    and "\<And>rest. tokenize Data (mediaHTML @ rest) = map_option (\<lambda>ts. media @ ts) (tokenize Data rest)"
  shows "tokenize Data (card_html username title mediaHTML sourceUrl upvotes comments)
    = Some (head_tags @ media @ tail_tags sourceUrl)"
  using assms(1-5)
  by (simp add: card_html_def head_tags_def tail_tags_def chars
      tokenize_ValueDQ_text tokenize_Data_text assms(6) option.map_comp o_def)

lemma elements_of_tags:
  "tokenize Data html = Some ts \<Longrightarrow>
   elements name html = Some (filter (\<lambda>t. \<not> is_end t \<and> tag_name t = name) ts)"
  by (simp add: elements_def)

lemma template_has_no_media:
  "filter (\<lambda>t. \<not> is_end t \<and> tag_name t = ascii ''img'') head_tags = []"
  "filter (\<lambda>t. \<not> is_end t \<and> tag_name t = ascii ''img'') (tail_tags href) = []"
  "filter (\<lambda>t. \<not> is_end t \<and> tag_name t = ascii ''video'') head_tags = []"
  "filter (\<lambda>t. \<not> is_end t \<and> tag_name t = ascii ''video'') (tail_tags href) = []"
  by (simp_all add: head_tags_def tail_tags_def ascii_def cu_def)

lemma video_tags_media:
  "filter (\<lambda>t. \<not> is_end t \<and> tag_name t = ascii ''img'') (video_tags src) = []"
  "filter (\<lambda>t. \<not> is_end t \<and> tag_name t = ascii ''video'') (video_tags src)
     = [Tag False (ascii ''video'') [(ascii ''class'', ascii ''rice-video''), (ascii ''controls'', [])]]"
  by (simp_all add: video_tags_def ascii_def cu_def)



lemma addRice_video:
  assumes "mediaType = JStr (ascii ''video'')"
    and "convertible username" "convertible title" "convertible mediaUrl"
    "convertible sourceUrl" "convertible upvotes" "convertible comments"
  shows "addRice username title mediaUrl mediaType sourceUrl upvotes comments p
    = Inr (appendChild
        \<lparr>className = ascii ''rice-card'',
         innerHTML = card_html (text_of username) (text_of title) (video_html (text_of mediaUrl))
           (text_of sourceUrl) (text_of upvotes) (text_of comments)\<rparr> p)"
  using assms by (simp add: addRice_def media_markup_video card_markup_returns)



section \<open>The cards of addRice\<close>

text \<open>
  Claim C5, as amended. For an entry whose \<open>mediaType\<close> is \<^verbatim>\<open>video\<close>, whose user name,
  title and counts are converted to text with no \<^verbatim>\<open><\<close> and whose media and source
  references are converted to text with no double quote, \<^verbatim>\<open>addRice\<close> appends a card
  whose markup holds exactly one \<^verbatim>\<open>video\<close> element and no \<^verbatim>\<open>img\<close> element, whether
  the media argument is one reference or a sequence; the one \<^verbatim>\<open>source\<close> of the player
  names the converted media argument.
\<close>

theorem addRice_video_card:
  assumes "mediaType = JStr (ascii ''video'')"
    and "text_safe username" "text_safe title" "text_safe upvotes" "text_safe comments"
    and "attr_safe mediaUrl" "attr_safe sourceUrl"
  shows "\<exists>c v s. addRice username title mediaUrl mediaType sourceUrl upvotes comments p
        = Inr (appendChild c p)
    \<and> elements (ascii ''video'') (innerHTML c) = Some [v]
    \<and> elements (ascii ''img'') (innerHTML c) = Some []
    \<and> elements (ascii ''source'') (innerHTML c) = Some [s]
    \<and> attribute (ascii ''src'') s = Some (text_of mediaUrl)"
proof -
  let ?html = "card_html (text_of username) (text_of title) (video_html (text_of mediaUrl))
    (text_of sourceUrl) (text_of upvotes) (text_of comments)"
  from assms(2-7) have conv: "convertible username" "convertible title" "convertible mediaUrl"
    "convertible sourceUrl" "convertible upvotes" "convertible comments"
    by (simp_all add: text_safe_def attr_safe_def)
  from assms(2-7) have safe: "cu CHR ''<'' \<notin> set (text_of username)"
    "cu CHR ''<'' \<notin> set (text_of title)" "cu CHR ''<'' \<notin> set (text_of upvotes)"
    "cu CHR ''<'' \<notin> set (text_of comments)"
    and quote: \<open>cu CHR ''"'' \<notin> set (text_of sourceUrl)\<close> \<open>cu CHR ''"'' \<notin> set (text_of mediaUrl)\<close>
    by (simp_all add: text_safe_def attr_safe_def)
  have t: "tokenize Data ?html
      = Some (head_tags @ video_tags (text_of mediaUrl) @ tail_tags (text_of sourceUrl))"
    using safe quote(1) tokenize_video [OF quote(2)] by (rule tokenize_card)
  let ?v = "Tag False (ascii ''video'') [(ascii ''class'', ascii ''rice-video''), (ascii ''controls'', [])]"
  let ?s = "Tag False (ascii ''source'')
              [(ascii ''src'', text_of mediaUrl), (ascii ''type'', ascii ''video/mp4'')]"
  have v: "elements (ascii ''video'') ?html = Some [?v]"
    by (simp add: elements_of_tags [OF t] template_has_no_media video_tags_media)
  have i: "elements (ascii ''img'') ?html = Some []"
    by (simp add: elements_of_tags [OF t] template_has_no_media video_tags_media)
  have s: "elements (ascii ''source'') ?html = Some [?s]"
    unfolding elements_of_tags [OF t]
    by (simp add: head_tags_def tail_tags_def video_tags_def) (simp add: ascii_def cu_def)
  have a: "attribute (ascii ''src'') ?s = Some (text_of mediaUrl)"
    by (simp add: attribute_def)
  show ?thesis
    unfolding addRice_video [OF assms(1) conv]
    by (intro exI [of _ "\<lparr>className = ascii ''rice-card'', innerHTML = ?html\<rparr>"]
          exI [of _ ?v] exI [of _ ?s])
       (simp add: v i s a)
qed

theorem addRice_video_card_witness:
  "text_safe (JStr (ascii ''user'')) \<and> text_safe (JStr (ascii ''[i3] setup''))
   \<and> text_safe (JNum 12) \<and> text_safe (JNum 3)
   \<and> attr_safe (JArr [Some (JStr (ascii ''a.mp4'')), Some (JStr (ascii ''b.mp4''))])
   \<and> attr_safe (JStr (ascii ''https://reddit.com/r/unixporn''))
   \<and> (\<exists>c v s. addRice (JStr (ascii ''user'')) (JStr (ascii ''[i3] setup''))
                 (JArr [Some (JStr (ascii ''a.mp4'')), Some (JStr (ascii ''b.mp4''))])
                 (JStr (ascii ''video''))
                 (JStr (ascii ''https://reddit.com/r/unixporn'')) (JNum 12) (JNum 3) example_page
               = Inr (appendChild c example_page)
        \<and> elements (ascii ''video'') (innerHTML c) = Some [v]
        \<and> elements (ascii ''img'') (innerHTML c) = Some []
        \<and> elements (ascii ''source'') (innerHTML c) = Some [s]
        \<and> attribute (ascii ''src'') s = Some (ascii ''a.mp4,b.mp4''))"
proof -
  have h: "text_safe (JStr (ascii ''user''))" "text_safe (JStr (ascii ''[i3] setup''))"
    "text_safe (JNum 12)" "text_safe (JNum 3)"
    "attr_safe (JArr [Some (JStr (ascii ''a.mp4'')), Some (JStr (ascii ''b.mp4''))])"
    "attr_safe (JStr (ascii ''https://reddit.com/r/unixporn''))"
    by (simp_all add: text_safe_def attr_safe_def convertible_def text_of_def number_to_string_def
        ascii_def cu_def digits.simps)
  have j: "text_of (JArr [Some (JStr (ascii ''a.mp4'')), Some (JStr (ascii ''b.mp4''))])
      = ascii ''a.mp4,b.mp4''"
    by (simp add: text_of_def ascii_def)
  from addRice_video_card [OF refl h(1,2,3,4,5,6), of example_page] h show ?thesis
    unfolding j by simp
qed

text \<open>
  Without the condition on the media reference the property fails: the arguments are
  written into the markup as they are, so a reference that closes the attribute and the
  tag brings an \<^verbatim>\<open>img\<close> element into the card of a video entry.
\<close>

theorem addRice_video_card_counterexample:
  \<open>addRice (JStr (ascii ''user'')) (JStr (ascii ''title'')) (JStr (ascii ''"><img src="x''))
     (JStr (ascii ''video'')) (JStr (ascii ''https://reddit.com/r/unixporn'')) (JNum 1) (JNum 2)
     example_page
   = Inr (appendChild
       \<lparr>className = ascii ''rice-card'',
        innerHTML = card_html (ascii ''user'') (ascii ''title'')
          (video_html (ascii ''"><img src="x''))
          (ascii ''https://reddit.com/r/unixporn'') (ascii ''1'') (ascii ''2'')\<rparr>
       example_page)
   \<and> elements (ascii ''img'')
        (card_html (ascii ''user'') (ascii ''title'')
          (video_html (ascii ''"><img src="x''))
          (ascii ''https://reddit.com/r/unixporn'') (ascii ''1'') (ascii ''2''))
     = Some [Tag False (ascii ''img'') [(ascii ''src'', ascii ''x''), (ascii ''type'', ascii ''video/mp4'')]]\<close>
proof -
  have n: "number_to_string 1 = ascii ''1''" "number_to_string 2 = ascii ''2''"
    by (simp_all add: number_to_string_def digits.simps ascii_def cu_def)
  show ?thesis
    by (simp add: addRice_def media_markup_def video_markup_def card_markup_def n)
       (simp add: elements_def card_html_def video_html_def chars)
qed







text \<open>
  Claim C8, as amended. Every call of \<^verbatim>\<open>addRice\<close> whose interpolated values can be
  converted to strings returns the page with one card added after the children the
  container had, which are left as they were, and with nothing else changed; the card
  depends on the arguments only, and a second call with the same arguments adds the
  same card once more.
\<close>

theorem addRice_appends_one_card:
  assumes "list_all convertible (interpolated username title mediaUrl mediaType sourceUrl upvotes comments)"
  shows "\<exists>c q q'. addRice username title mediaUrl mediaType sourceUrl upvotes comments p = Inr q
     \<and> q = p\<lparr>riceGrid_children := riceGrid_children p @ [c]\<rparr>
     \<and> length (riceGrid_children q) = length (riceGrid_children p) + 1
     \<and> take (length (riceGrid_children p)) (riceGrid_children q) = riceGrid_children p
     \<and> last (riceGrid_children q) = c
     \<and> addRice username title mediaUrl mediaType sourceUrl upvotes comments q = Inr q'
     \<and> q' = p\<lparr>riceGrid_children := riceGrid_children p @ [c, c]\<rparr>
     \<and> length (riceGrid_children q') = length (riceGrid_children p) + 2"
proof -
  from addRice_appends [OF assms] obtain html where
    a: "\<And>p. addRice username title mediaUrl mediaType sourceUrl upvotes comments p
      = Inr (appendChild \<lparr>className = ascii ''rice-card'', innerHTML = html\<rparr> p)"
    by blast
  show ?thesis
    by (simp add: a appendChild_def)
qed

theorem addRice_appends_one_card_witness:
  "list_all convertible
     (interpolated (JStr (ascii ''user'')) (JStr (ascii ''title'')) (JStr (ascii ''a.png''))
        (JStr (ascii ''image'')) (JStr (ascii ''https://reddit.com/r/unixporn'')) (JNum 1) (JNum 2))
   \<and> (\<exists>c q q'. addRice (JStr (ascii ''user'')) (JStr (ascii ''title'')) (JStr (ascii ''a.png''))
        (JStr (ascii ''image'')) (JStr (ascii ''https://reddit.com/r/unixporn'')) (JNum 1) (JNum 2)
        example_page = Inr q
     \<and> riceGrid_children q = [c]
     \<and> addRice (JStr (ascii ''user'')) (JStr (ascii ''title'')) (JStr (ascii ''a.png''))
        (JStr (ascii ''image'')) (JStr (ascii ''https://reddit.com/r/unixporn'')) (JNum 1) (JNum 2)
        q = Inr q'
     \<and> riceGrid_children q' = [c, c])"
proof -
  have h: "list_all convertible
     (interpolated (JStr (ascii ''user'')) (JStr (ascii ''title'')) (JStr (ascii ''a.png''))
        (JStr (ascii ''image'')) (JStr (ascii ''https://reddit.com/r/unixporn'')) (JNum 1) (JNum 2))"
    by (simp add: interpolated_def convertible_def)
  from addRice_appends_one_card [OF h, of example_page]
  obtain c q q' where
    "addRice (JStr (ascii ''user'')) (JStr (ascii ''title'')) (JStr (ascii ''a.png''))
        (JStr (ascii ''image'')) (JStr (ascii ''https://reddit.com/r/unixporn'')) (JNum 1) (JNum 2)
        example_page = Inr q"
    "q = example_page\<lparr>riceGrid_children := riceGrid_children example_page @ [c]\<rparr>"
    "addRice (JStr (ascii ''user'')) (JStr (ascii ''title'')) (JStr (ascii ''a.png''))
        (JStr (ascii ''image'')) (JStr (ascii ''https://reddit.com/r/unixporn'')) (JNum 1) (JNum 2)
        q = Inr q'"
    "q' = example_page\<lparr>riceGrid_children := riceGrid_children example_page @ [c, c]\<rparr>"
    by blast
  then have "\<exists>c q q'. addRice (JStr (ascii ''user'')) (JStr (ascii ''title'')) (JStr (ascii ''a.png''))
        (JStr (ascii ''image'')) (JStr (ascii ''https://reddit.com/r/unixporn'')) (JNum 1) (JNum 2)
        example_page = Inr q
     \<and> riceGrid_children q = [c]
     \<and> addRice (JStr (ascii ''user'')) (JStr (ascii ''title'')) (JStr (ascii ''a.png''))
        (JStr (ascii ''image'')) (JStr (ascii ''https://reddit.com/r/unixporn'')) (JNum 1) (JNum 2)
        q = Inr q'
     \<and> riceGrid_children q' = [c, c]"
    by (intro exI [of _ c] exI [of _ q] exI [of _ q']) (simp add: example_page_def)
  with h show ?thesis ..
qed

text \<open>
  Without the condition the property fails: a sequence that holds a symbol makes the
  callback of \<^verbatim>\<open>forEach\<close> raise, and a count that is an object with no conversion
  makes the template literal of the card raise, in both cases before \<^verbatim>\<open>appendChild\<close>,
  so that no card is added.
\<close>

theorem addRice_appends_one_card_counterexample:
  "addRice (JStr (ascii ''user'')) (JStr (ascii ''title''))
     (JArr [Some (JStr (ascii ''a.png'')), Some JSymbol]) (JStr (ascii ''image''))
     (JStr (ascii ''https://reddit.com/r/unixporn'')) (JNum 1) (JNum 2) example_page
   = Inl (TypeError (ascii ''Cannot convert a Symbol value to a string''))
   \<and> addRice (JStr (ascii ''user'')) (JStr (ascii ''title'')) (JStr (ascii ''a.png''))
       (JStr (ascii ''image'')) (JStr (ascii ''https://reddit.com/r/unixporn'')) bare_object (JNum 2)
       example_page
     = Inl (TypeError (ascii ''Cannot convert object to primitive value''))"
proof -
  have d: "JStr (ascii ''image'') \<noteq> JStr (ascii ''video'')"
    by (simp add: ascii_def cu_def)
  then show ?thesis
    by (simp add: addRice_def media_markup_def single_image_def gallery_image_def card_markup_def
        bare_object_def)
qed

end
